theory Spec2Isabelle
  imports Complex_Main
begin

section \<open>Python values shared by both source files\<close>

text \<open>
  Every \<^verbatim>\<open>raise\<close>, failed \<^verbatim>\<open>assert\<close> and library error of the source is a value of
  \<open>error\<close>; a function that can fail returns \<open>error + 'a\<close> with \<open>Inl\<close> for the error.
  The spec's names for them: \<open>ValueError\<close> raised by the classification functions is
  UnsupportedModel, \<open>AssertionError\<close> raised by the two installation guards is
  AlreadyConfigured.
\<close>

datatype error =
  ValueError | NotImplementedError | AssertionError | AttributeError | IndexError
  | KeyError | TypeError | RuntimeError | ZeroDivisionError

datatype dtype = Float16 | BFloat16 | Float32 | Float64

datatype device = CPU | CUDA nat

text \<open>
  A tensor of the rotation and fusion code is a matrix (a list of rows) or a vector with
  its dtype and device. Entries are real numbers: a cast changes the dtype tag and the
  device, the rounding of floating-point arithmetic is outside the embedding.
\<close>

record 'a tensor =
  dtype :: dtype
  device :: device
  data :: 'a

type_synonym matrix = "real list list tensor"
type_synonym vector = "real list tensor"

section \<open>utils/model\_utils.py: classification\<close>

text \<open>
  The three model classes of the pretrained-model library, and any other class. A model
  object is known here by its method resolution order: \<^verbatim>\<open>isinstance(model, C)\<close> holds when
  \<open>C\<close> is the class of the model or one of its bases.
\<close>

datatype pyclass = LlamaForCausalLM | MistralForCausalLM | Qwen2ForCausalLM | OtherClass string

definition LLAMA_MODEL :: pyclass where
  "LLAMA_MODEL = LlamaForCausalLM"

definition MISTRAL_MODEL :: pyclass where
  "MISTRAL_MODEL = MistralForCausalLM"

definition QW_MODEL :: pyclass where
  "QW_MODEL = Qwen2ForCausalLM"

definition isinstance :: "pyclass list \<Rightarrow> pyclass \<Rightarrow> bool" where
  "isinstance mro c = (c \<in> set mro)"

definition model_type_extractor :: "pyclass list \<Rightarrow> error + pyclass" where
  "model_type_extractor model =
     (if isinstance model LLAMA_MODEL then Inr LLAMA_MODEL
      else if isinstance model MISTRAL_MODEL then Inr MISTRAL_MODEL
      else if isinstance model QW_MODEL then Inr QW_MODEL
      else Inl ValueError)"

definition get_model_type :: "pyclass list \<Rightarrow> error + pyclass" where
  "get_model_type model =
     (case (if isinstance model LLAMA_MODEL then Some LLAMA_MODEL
            else if isinstance model MISTRAL_MODEL then Some MISTRAL_MODEL
            else if isinstance model QW_MODEL then Some QW_MODEL
            else None) of
        None \<Rightarrow> Inl ValueError
      | Some model_type \<Rightarrow> Inr model_type)"

section \<open>utils/model\_utils.py: the layer-io path\<close>

text \<open>
  \<^verbatim>\<open>os.path.join\<close> of a POSIX system: a component that starts with a slash replaces what
  came before, a slash is inserted unless the path so far is empty or ends with one.
\<close>

fun path_join :: "string \<Rightarrow> string list \<Rightarrow> string" where
  "path_join a [] = a"
| "path_join a (b # p) =
     path_join (if b \<noteq> [] \<and> hd b = CHR ''/'' then b
                else if a = [] \<or> last a = CHR ''/'' then a @ b
                else a @ CHR ''/'' # b) p"

definition digit_char :: "nat \<Rightarrow> char" where
  "digit_char d = char_of (48 + d)"

text \<open>The decimal digits of a natural number, as \<^verbatim>\<open>str\<close> prints them.\<close>

function str_nat :: "nat \<Rightarrow> string" where
  "str_nat n = (if n < 10 then [digit_char n] else str_nat (n div 10) @ [digit_char (n mod 10)])"
  by pat_completeness auto
termination
  by (relation "measure id") auto

text \<open>
  The format \<^verbatim>\<open>{:03d}\<close>: the minimum width 3 counts the sign, and the zeros are put
  between the sign and the digits.
\<close>

definition format_03d :: "int \<Rightarrow> string" where
  "format_03d i =
     (if i < 0 then CHR ''-'' # replicate (2 - length (str_nat (nat (- i)))) CHR ''0'' @ str_nat (nat (- i))
      else replicate (3 - length (str_nat (nat i))) CHR ''0'' @ str_nat (nat i))"

record args =
  save_path :: string
  layer_idx :: int

definition get_layer_io_save_path :: "args \<Rightarrow> string" where
  "get_layer_io_save_path a =
     path_join (save_path a) [''layer_io'', format_03d (layer_idx a) @ ''.pt'']"

section \<open>utils/rotation\_utils.py: online rotation\<close>

text \<open>
  The attributes of a \<^verbatim>\<open>torch.nn.Module\<close>: a name is bound in the parameters, in the
  buffers (persistent or not), in the submodules or in the instance dictionary.
  \<^verbatim>\<open>hasattr\<close> sees all four.
\<close>

datatype pyobj = PyNone | Tensor matrix | Parameter matrix | Submodule nat | Handle nat | Object nat

datatype slot = InParameters | InModules | InBuffers bool | InDict

datatype hook = Online_rotate

record module =
  attrs :: "string \<rightharpoonup> slot \<times> pyobj"
  forward_pre_hooks :: "hook list"

definition hasattr :: "module \<Rightarrow> string \<Rightarrow> bool" where
  "hasattr m name = (attrs m name \<noteq> None)"

definition getattr :: "module \<Rightarrow> string \<Rightarrow> error + pyobj" where
  "getattr m name = (case attrs m name of None \<Rightarrow> Inl AttributeError | Some (s, v) \<Rightarrow> Inr v)"

text \<open>The \<^verbatim>\<open>.data\<close> of a parameter or tensor; any other object has none.\<close>

fun tensor_data :: "pyobj \<Rightarrow> error + matrix" where
  "tensor_data (Tensor t) = Inr t"
| "tensor_data (Parameter t) = Inr t"
| "tensor_data _ = Inl AttributeError"

text \<open>
  \<^verbatim>\<open>Module.__setattr__\<close>: a parameter or a submodule is registered as such; a name that
  is bound to a parameter or a submodule takes no other value but None; a name that is
  bound to a buffer takes a tensor or None and stays a buffer; everything else goes to
  the instance dictionary.
\<close>

definition setattr :: "module \<Rightarrow> string \<Rightarrow> pyobj \<Rightarrow> error + module" where
  "setattr m name v =
     (let old = map_option fst (attrs m name);
          put = (\<lambda>s. Inr (m\<lparr>attrs := (attrs m)(name \<mapsto> (s, v))\<rparr>))
      in case v of
           Parameter t \<Rightarrow> put InParameters
         | _ \<Rightarrow>
            if old = Some InParameters then (if v = PyNone then put InParameters else Inl TypeError)
            else (case v of
                    Submodule i \<Rightarrow> put InModules
                  | _ \<Rightarrow>
                     if old = Some InModules then (if v = PyNone then put InModules else Inl TypeError)
                     else (case (v, old) of
                             (Tensor t, Some (InBuffers p)) \<Rightarrow> put (InBuffers p)
                           | (_, Some (InBuffers p)) \<Rightarrow>
                               (if v = PyNone then put (InBuffers p) else Inl TypeError)
                           | _ \<Rightarrow> put InDict)))"

text \<open>
  \<^verbatim>\<open>register_buffer(name, tensor)\<close> with the default \<^verbatim>\<open>persistent=True\<close>: it refuses a
  name that is an attribute and not a buffer.
\<close>

definition register_buffer :: "module \<Rightarrow> string \<Rightarrow> matrix \<Rightarrow> error + module" where
  "register_buffer m name t =
     (case attrs m name of
        Some (InBuffers p, _) \<Rightarrow> Inr (m\<lparr>attrs := (attrs m)(name \<mapsto> (InBuffers True, Tensor t))\<rparr>)
      | Some _ \<Rightarrow> Inl KeyError
      | None \<Rightarrow> Inr (m\<lparr>attrs := (attrs m)(name \<mapsto> (InBuffers True, Tensor t))\<rparr>))"

definition register_forward_pre_hook :: "module \<Rightarrow> hook \<Rightarrow> pyobj \<times> module" where
  "register_forward_pre_hook m h =
     (Handle (length (forward_pre_hooks m)), m\<lparr>forward_pre_hooks := forward_pre_hooks m @ [h]\<rparr>)"

text \<open>\<^verbatim>\<open>Q.T\<close> of a matrix, and \<^verbatim>\<open>t.to(other)\<close>, which takes the dtype and device of \<open>other\<close>.\<close>

definition T :: "matrix \<Rightarrow> matrix" where
  "T q = q\<lparr>data := (case data q of [] \<Rightarrow> []
                       | r # _ \<Rightarrow> map (\<lambda>j. map (\<lambda>row. row ! j) (data q)) [0..<length r])\<rparr>"

definition to :: "'a tensor \<Rightarrow> 'b tensor \<Rightarrow> 'a tensor" where
  "to t other = t\<lparr>dtype := dtype other, device := device other\<rparr>"





definition register_online_rotation :: "module \<Rightarrow> matrix \<Rightarrow> error + module" where
  "register_online_rotation m Q =
     (if hasattr m ''Q'' then Inl AssertionError
      else case getattr m ''weight'' of
             Inl e \<Rightarrow> Inl e
           | Inr w \<Rightarrow>
              (case tensor_data w of
                 Inl e \<Rightarrow> Inl e
               | Inr wd \<Rightarrow>
                  (case register_buffer m ''Q'' (to (T Q) wd) of
                     Inl e \<Rightarrow> Inl e
                   | Inr m1 \<Rightarrow>
                      (case register_forward_pre_hook m1 Online_rotate of
                         (h, m2) \<Rightarrow> setattr m2 ''rotate_handle'' h))))"

text \<open>
  The external monkeypatch utility is a parameter: given the module, the method name, the
  function name and the wrapper configuration it fails, or returns the wrapper it
  installed and the module it changed.
\<close>

definition add_qk_rotation_wrapper_after_function_call_in_forward ::
  "(module \<Rightarrow> string \<Rightarrow> string \<Rightarrow> 'c \<Rightarrow> error + pyobj \<times> module) \<Rightarrow>
   module \<Rightarrow> string \<Rightarrow> 'c \<Rightarrow> error + module" where
  "add_qk_rotation_wrapper_after_function_call_in_forward add_wrapper m function_name cfg =
     (let attr_name = function_name @ ''_qk_rotation_wrapper''
      in if hasattr m attr_name then Inl AssertionError
         else case add_wrapper m ''forward'' function_name cfg of
                Inl e \<Rightarrow> Inl e
              | Inr (wrapper, m1) \<Rightarrow> setattr m1 attr_name wrapper)"

section \<open>utils/rotation\_utils.py: layer-norm fusion\<close>

text \<open>
  A linear layer has a weight matrix (one row per output feature) and a bias that is a
  vector or None. A normalization module has a scale vector \<open>weight\<close>; its attribute
  \<open>bias\<close> is absent (the RMS norms of the three families), None, or a vector.
\<close>

datatype 'a attribute = NoAttribute | NoneValue | Value 'a

record Linear =
  weight :: matrix
  bias :: "vector option"
  out_features :: nat

record Norm =
  norm_weight :: vector
  norm_bias :: "vector attribute"

record Attention =
  q_proj :: Linear
  k_proj :: Linear
  v_proj :: Linear
  o_proj :: Linear

record MLP =
  gate_proj :: Linear
  up_proj :: Linear
  down_proj :: Linear

record DecoderLayer =
  self_attn :: Attention
  mlp :: MLP
  input_layernorm :: Norm
  post_attention_layernorm :: Norm

record InnerModel =
  layers :: "DecoderLayer list"
  norm :: Norm

record CausalLM =
  mro :: "pyclass list"
  model :: InnerModel
  lm_head :: Linear


definition to_dtype :: "'a tensor \<Rightarrow> dtype \<Rightarrow> 'a tensor" where
  "to_dtype t d = t\<lparr>dtype := d\<rparr>"

text \<open>
  Broadcasting of two vectors: equal lengths go entry by entry, a vector of length one is
  repeated, anything else is refused.
\<close>

definition broadcast :: "(real \<Rightarrow> real \<Rightarrow> real) \<Rightarrow> real list \<Rightarrow> real list \<Rightarrow> error + real list" where
  "broadcast f xs ys =
     (if length xs = length ys then Inr (map2 f xs ys)
      else if length ys = 1 then Inr (map (\<lambda>x. f x (hd ys)) xs)
      else if length xs = 1 then Inr (map (\<lambda>y. f (hd xs) y) ys)
      else Inl RuntimeError)"




definition add :: "vector \<Rightarrow> vector \<Rightarrow> error + vector" where
  "add u v =
     (if device u \<noteq> device v then Inl RuntimeError
      else case broadcast (+) (data u) (data v) of
             Inl e \<Rightarrow> Inl e
           | Inr xs \<Rightarrow> Inr (u\<lparr>data := xs\<rparr>))"










section \<open>utils/rotation\_utils.py: the query/key wrapper\<close>

text \<open>
  The query and key tensors have a shape and their entries in row-major order; dtype and
  device are those of \<open>'a tensor\<close>.
\<close>

record nd =
  shape :: "nat list"
  elems :: "real list"

type_synonym ndtensor = "nd tensor"

definition numel :: "ndtensor \<Rightarrow> nat" where
  "numel t = prod_list (shape (data t))"

definition float :: "ndtensor \<Rightarrow> ndtensor" where
  "float t = t\<lparr>dtype := Float32\<rparr>"

text \<open>
  \<^verbatim>\<open>t.reshape(-1, n)\<close>: the number of entries must be a multiple of a positive \<open>n\<close>.
  \<^verbatim>\<open>t.reshape(shape)\<close>: the number of entries must be the product of the shape.
\<close>

definition reshape_rows :: "ndtensor \<Rightarrow> int \<Rightarrow> error + ndtensor" where
  "reshape_rows t n =
     (if n \<le> 0 \<or> int (numel t) mod n \<noteq> 0 then Inl RuntimeError
      else Inr (t\<lparr>data := (data t)\<lparr>shape := [numel t div nat n, nat n]\<rparr>\<rparr>))"

definition reshape :: "ndtensor \<Rightarrow> nat list \<Rightarrow> error + ndtensor" where
  "reshape t shp =
     (if prod_list shp \<noteq> numel t then Inl RuntimeError
      else Inr (t\<lparr>data := (data t)\<lparr>shape := shp\<rparr>\<rparr>))"

text \<open>\<^verbatim>\<open>t.transpose(1, 2)\<close>: the second and third dimension change places.\<close>

definition transpose_1_2 :: "ndtensor \<Rightarrow> error + ndtensor" where
  "transpose_1_2 t =
     (case shape (data t) of
        a # b # c # rest \<Rightarrow>
          (let d = prod_list rest
           in Inr (t\<lparr>data := \<lparr>shape = a # c # b # rest,
                     elems = concat (map (\<lambda>i. concat (map (\<lambda>k. concat (map (\<lambda>j.
                               take d (drop (((i * b + j) * c + k) * d) (elems (data t))))
                               [0..<b])) [0..<c])) [0..<a])\<rparr>\<rparr>))
      | _ \<Rightarrow> Inl IndexError)"

record config =
  num_attention_heads :: int
  hidden_size :: int

text \<open>
  The keyword arguments of the wrapper: a key that is absent is \<open>None\<close>, and reading it
  raises KeyError.
\<close>

record qk_kwargs =
  kw_disable_qk_rotation :: "bool option"
  kw_k_groupsize :: "int option"
  kw_k_bits :: "int option"
  kw_k_sym :: "bool option"
  kw_k_clip_ratio :: "real option"

text \<open>
  The activation quantizer is external. Its state holds the configuration, the calibration
  parameters of the last \<open>find_params\<close>, and here also the calls it has received.
\<close>

datatype quantizer_call = Find_params ndtensor | Quantize ndtensor | Free

record 'p ActQuantizer =
  bits :: int
  groupsize :: int
  sym :: bool
  clip_ratio :: real
  params :: "'p option"
  calls :: "quantizer_call list"

text \<open>
  Modelled from the spec: \<open>configure(bits, groupsize, symmetric, clip_ratio)\<close> of the
  activation quantizer (utils/quant\_utils.py) stores the four values.
\<close>

definition configure :: "'p ActQuantizer \<Rightarrow> int \<Rightarrow> int \<Rightarrow> bool \<Rightarrow> real \<Rightarrow> 'p ActQuantizer" where
  "configure kq b g s c = kq\<lparr>bits := b, groupsize := g, sym := s, clip_ratio := c\<rparr>"

text \<open>
  Modelled from the spec: \<open>find_params(tensor)\<close> calibrates, the call quantizes with the
  calibration, \<open>free()\<close> discards the calibration. What they compute is a parameter:
  \<open>calibrate\<close> and \<open>quantize\<close>.
\<close>

definition find_params ::
  "('p ActQuantizer \<Rightarrow> ndtensor \<Rightarrow> 'p) \<Rightarrow> 'p ActQuantizer \<Rightarrow> ndtensor \<Rightarrow> 'p ActQuantizer" where
  "find_params calibrate kq x = kq\<lparr>params := Some (calibrate kq x), calls := calls kq @ [Find_params x]\<rparr>"

definition quantizer_call ::
  "('p ActQuantizer \<Rightarrow> ndtensor \<Rightarrow> ndtensor) \<Rightarrow> 'p ActQuantizer \<Rightarrow> ndtensor \<Rightarrow> ndtensor \<times> 'p ActQuantizer" where
  "quantizer_call quantize kq x = (quantize kq x, kq\<lparr>calls := calls kq @ [Quantize x]\<rparr>)"

definition free :: "'p ActQuantizer \<Rightarrow> 'p ActQuantizer" where
  "free kq = kq\<lparr>params := None, calls := calls kq @ [Free]\<rparr>"

record 'p QKRotationWrapper =
  wconfig :: config
  head_dim :: int
  k_quantizer :: "'p ActQuantizer"
  k_bits :: int
  disable_qk_rotation :: bool
  k_groupsize :: int
  k_sym :: bool
  k_clip_ratio :: real

text \<open>
  \<open>QKRotationWrapper.__init__\<close>. The power-of-two test of utils/hadamard\_utils.py and the
  freshly constructed quantizer are parameters.
\<close>

definition QKRotationWrapper_init ::
  "(int \<Rightarrow> bool) \<Rightarrow> 'p ActQuantizer \<Rightarrow> config \<Rightarrow> qk_kwargs \<Rightarrow> error + 'p QKRotationWrapper" where
  "QKRotationWrapper_init is_pow2 new_quantizer cfg kwargs =
     (if num_attention_heads cfg = 0 then Inl ZeroDivisionError
      else let hd = hidden_size cfg div num_attention_heads cfg
      in if \<not> is_pow2 hd then Inl AssertionError
         else case kw_disable_qk_rotation kwargs of
           None \<Rightarrow> Inl KeyError
         | Some dis \<Rightarrow>
            (case kw_k_groupsize kwargs of
               None \<Rightarrow> Inl KeyError
             | Some g \<Rightarrow>
                if g \<notin> set [- 1, hd] then Inl AssertionError
                else (case kw_k_bits kwargs of
                   None \<Rightarrow> Inl KeyError
                 | Some b \<Rightarrow>
                    (case kw_k_sym kwargs of
                       None \<Rightarrow> Inl KeyError
                     | Some s \<Rightarrow>
                        (case kw_k_clip_ratio kwargs of
                           None \<Rightarrow> Inl KeyError
                         | Some c \<Rightarrow>
                            Inr \<lparr>wconfig = cfg, head_dim = hd,
                                 k_quantizer = configure new_quantizer b (- 1) s c,
                                 k_bits = b, disable_qk_rotation = dis, k_groupsize = g,
                                 k_sym = s, k_clip_ratio = c\<rparr>)))))"

text \<open>
  \<^verbatim>\<open>hadamard_transform(x.float(), scale=1 / math.sqrt(x.shape[-1])).to(dtype)\<close>. The
  kernel is external and is None when its import failed; the arguments are evaluated
  before the call.
\<close>

definition rotate ::
  "(ndtensor \<Rightarrow> real \<Rightarrow> error + ndtensor) option \<Rightarrow> ndtensor \<Rightarrow> dtype \<Rightarrow> error + ndtensor" where
  "rotate hadamard_transform x d =
     (if shape (data x) = [] then Inl IndexError
      else if last (shape (data x)) = 0 then Inl ZeroDivisionError
      else case hadamard_transform of
             None \<Rightarrow> Inl TypeError
           | Some h \<Rightarrow>
              (case h (float x) (1 / sqrt (real (last (shape (data x))))) of
                 Inl e \<Rightarrow> Inl e
               | Inr y \<Rightarrow> Inr (to_dtype y d)))"

text \<open>
  The quantization of the key inside \<open>forward\<close>, for a key of shape
  \<open>(bsz, num_heads, seq_len, head_dim)\<close>: the token-wise and the head-wise path.
\<close>

definition quantize_key ::
  "('p ActQuantizer \<Rightarrow> ndtensor \<Rightarrow> 'p) \<Rightarrow> ('p ActQuantizer \<Rightarrow> ndtensor \<Rightarrow> ndtensor) \<Rightarrow>
   'p QKRotationWrapper \<Rightarrow> ndtensor \<Rightarrow> ndtensor \<Rightarrow> nat \<Rightarrow> nat \<Rightarrow> nat \<Rightarrow> nat \<Rightarrow>
   (error + ndtensor) \<times> 'p ActQuantizer" where
  "quantize_key calibrate quantize w q k bsz num_heads seq_len hdim =
     (if k_groupsize w = - 1 then
        (case transpose_1_2 k of
           Inl e \<Rightarrow> (Inl e, k_quantizer w)
         | Inr kt \<Rightarrow>
            (case reshape_rows kt (hidden_size (wconfig w)) of
               Inl e \<Rightarrow> (Inl e, k_quantizer w)
             | Inr token_wise_k \<Rightarrow>
                (let kq1 = find_params calibrate (k_quantizer w) token_wise_k;
                     (y, kq2) = quantizer_call quantize kq1 token_wise_k
                 in case reshape y [bsz, seq_len, num_heads, hdim] of
                      Inl e \<Rightarrow> (Inl e, kq2)
                    | Inr y1 \<Rightarrow>
                       (case transpose_1_2 y1 of
                          Inl e \<Rightarrow> (Inl e, kq2)
                        | Inr y2 \<Rightarrow> (Inr (to y2 q), kq2)))))
      else
        (case reshape_rows k (int hdim) of
           Inl e \<Rightarrow> (Inl e, k_quantizer w)
         | Inr per_head_k \<Rightarrow>
            (let kq1 = find_params calibrate (k_quantizer w) per_head_k;
                 (y, kq2) = quantizer_call quantize kq1 per_head_k
             in case reshape y [bsz, num_heads, seq_len, hdim] of
                  Inl e \<Rightarrow> (Inl e, kq2)
                | Inr y1 \<Rightarrow> (Inr (to y1 q), kq2))))"

text \<open>
  \<open>QKRotationWrapper.forward\<close>. The wrapped function \<open>func\<close>, the Hadamard kernel and what
  the quantizer computes are parameters. The quantizer is returned with the result,
  also when the call raises.
\<close>

definition forward ::
  "(ndtensor \<Rightarrow> real \<Rightarrow> error + ndtensor) option \<Rightarrow>
   ('p ActQuantizer \<Rightarrow> ndtensor \<Rightarrow> 'p) \<Rightarrow> ('p ActQuantizer \<Rightarrow> ndtensor \<Rightarrow> ndtensor) \<Rightarrow>
   ('a \<Rightarrow> error + ndtensor \<times> ndtensor) \<Rightarrow> 'p QKRotationWrapper \<Rightarrow> 'a \<Rightarrow>
   (error + ndtensor \<times> ndtensor) \<times> 'p ActQuantizer" where
  "forward hadamard_transform calibrate quantize func w a =
     (case func a of
        Inl e \<Rightarrow> (Inl e, k_quantizer w)
      | Inr (q0, k0) \<Rightarrow>
         if shape (data q0) = [] then (Inl IndexError, k_quantizer w)
         else if head_dim w \<noteq> int (last (shape (data q0))) then (Inl AssertionError, k_quantizer w)
         else
          (case (if disable_qk_rotation w then Inr (q0, k0)
                 else (case rotate hadamard_transform q0 (dtype q0) of
                         Inl e \<Rightarrow> Inl e
                       | Inr q1 \<Rightarrow>
                          (case rotate hadamard_transform k0 (dtype q0) of
                             Inl e \<Rightarrow> Inl e
                           | Inr k1 \<Rightarrow> Inr (q1, k1)))) of
             Inl e \<Rightarrow> (Inl e, k_quantizer w)
           | Inr (q, k) \<Rightarrow>
              (case shape (data k) of
                 [bsz, num_heads, seq_len, hdim] \<Rightarrow>
                   (if k_bits w < 16 then
                      (case quantize_key calibrate quantize w q k bsz num_heads seq_len hdim of
                         (Inl e, kq) \<Rightarrow> (Inl e, kq)
                       | (Inr k', kq) \<Rightarrow> (Inr (q, k'), free kq))
                    else (Inr (q, k), free (k_quantizer w)))
               | _ \<Rightarrow> (Inl ValueError, k_quantizer w))))"

section \<open>utils/model\_utils.py: replace\_modules\<close>

text \<open>
  A module hierarchy is a tree: a module has an identity, a class (given by its method
  resolution order) and its named children in the order of \<^verbatim>\<open>named_children()\<close>; no module
  object occurs twice in it, and the names of the children of one module are distinct.
\<close>

datatype nn_module =
  Module (ident: nat) (mro_of: "pyclass list") (children: "(string \<times> nn_module) list")


text \<open>
  Positions in a hierarchy are paths of child indices below the root. \<open>child_at\<close> is the
  named child at a path. \<open>reach\<close> is the named child at a path that does not pass through an
  instance of the type: no module strictly between the root and the child is an instance.
\<close>

fun child_at :: "(string \<times> nn_module) list \<Rightarrow> nat list \<Rightarrow> (string \<times> nn_module) option" where
  "child_at kids [] = None"
| "child_at kids (i # p) =
     (if i < length kids then
        (if p = [] then Some (kids ! i) else child_at (children (snd (kids ! i))) p)
      else None)"

fun reach :: "pyclass \<Rightarrow> (string \<times> nn_module) list \<Rightarrow> nat list \<Rightarrow> (string \<times> nn_module) option" where
  "reach t kids [] = None"
| "reach t kids (i # p) =
     (if i < length kids then
        (if p = [] then Some (kids ! i)
         else if isinstance (mro_of (snd (kids ! i))) t then None
         else reach t (children (snd (kids ! i))) p)
      else None)"

text \<open>The arguments of the factory for the child of a given name.\<close>

definition factory_arg :: "(string \<Rightarrow> int option) \<Rightarrow> bool \<Rightarrow> string \<Rightarrow> int option" where
  "factory_arg int_of replace_layers name = (if replace_layers then int_of name else None)"

definition call_at ::
  "(string \<Rightarrow> int option) \<Rightarrow> bool \<Rightarrow> (string \<times> nn_module) list \<Rightarrow> nat list \<Rightarrow> nn_module \<times> int option" where
  "call_at int_of replace_layers kids p =
     (case child_at kids p of
        Some (name, m) \<Rightarrow> (m, factory_arg int_of replace_layers name)
      | None \<Rightarrow> (Module 0 [] [], None))"




section \<open>utils/model\_utils.py: capture\_layer\_io\<close>














text \<open>
  The returned dictionary: \<open>io_input\<close> is its entry \<^verbatim>\<open>'input'\<close>, \<open>io_output\<close> its entry
  \<^verbatim>\<open>'output'\<close>, each a dictionary from names to tensors in the order of its keys.
\<close>

record layer_io =
  io_input :: "(string \<times> ndtensor) list"
  io_output :: "(string \<times> ndtensor) list"



section \<open>Concrete inputs\<close>

text \<open>
  A half-precision linear module on the first accelerator, a quarter-turn rotation in
  double precision on the host, one input row, and the module after the rotation has been
  registered on it.
\<close>

definition example_module :: module where
  "example_module =
     \<lparr>attrs = [''weight'' \<mapsto> (InParameters,
                 Parameter \<lparr>dtype = Float16, device = CUDA 0, data = [[1, 2], [3, 4]]\<rparr>)],
      forward_pre_hooks = []\<rparr>"

definition example_Q :: matrix where
  "example_Q = \<lparr>dtype = Float64, device = CPU, data = [[0, 1], [-1, 0]]\<rparr>"


definition example_rotated_module :: module where
  "example_rotated_module =
     \<lparr>attrs = [''weight'' \<mapsto> (InParameters,
                 Parameter \<lparr>dtype = Float16, device = CUDA 0, data = [[1, 2], [3, 4]]\<rparr>),
               ''Q'' \<mapsto> (InBuffers True,
                 Tensor \<lparr>dtype = Float16, device = CUDA 0, data = [[0, -1], [1, 0]]\<rparr>),
               ''rotate_handle'' \<mapsto> (InDict, Handle 0)],
      forward_pre_hooks = [Online_rotate]\<rparr>"

text \<open>A monkeypatch utility that installs a wrapper object and leaves the module as it is.\<close>

definition example_add_wrapper ::
  "module \<Rightarrow> string \<Rightarrow> string \<Rightarrow> unit \<Rightarrow> error + pyobj \<times> module" where
  "example_add_wrapper m method_name function_name cfg = Inr (Submodule 1, m)"





text \<open>
  A wrapper for four query heads of width 2 (hidden size 8), keys quantized to 4 bits
  token-wise, no Hadamard rotation; a query of four heads and a key of one head for one
  token, as grouped-query attention has them; a quantizer that calibrates nothing and
  returns its input.
\<close>

definition example_config :: config where
  "example_config = \<lparr>num_attention_heads = 4, hidden_size = 8\<rparr>"

definition example_kwargs :: "int \<Rightarrow> int \<Rightarrow> qk_kwargs" where
  "example_kwargs b g =
     \<lparr>kw_disable_qk_rotation = Some True, kw_k_groupsize = Some g, kw_k_bits = Some b,
      kw_k_sym = Some False, kw_k_clip_ratio = Some 1\<rparr>"

definition example_quantizer :: "unit ActQuantizer" where
  "example_quantizer =
     \<lparr>bits = 16, groupsize = - 1, sym = False, clip_ratio = 1, params = None, calls = []\<rparr>"

definition example_wrapper :: "int \<Rightarrow> int \<Rightarrow> unit QKRotationWrapper" where
  "example_wrapper b g =
     \<lparr>wconfig = example_config, head_dim = 2,
      k_quantizer = \<lparr>bits = b, groupsize = - 1, sym = False, clip_ratio = 1, params = None, calls = []\<rparr>,
      k_bits = b, disable_qk_rotation = True, k_groupsize = g, k_sym = False, k_clip_ratio = 1\<rparr>"

definition example_is_pow2 :: "int \<Rightarrow> bool" where
  "example_is_pow2 n = (n \<in> set [1, 2, 4, 8, 16, 32, 64, 128, 256])"

definition example_q :: ndtensor where
  "example_q = \<lparr>dtype = Float16, device = CUDA 0,
                 data = \<lparr>shape = [1, 4, 1, 2], elems = [1, 2, 3, 4, 5, 6, 7, 8]\<rparr>\<rparr>"

definition example_k :: ndtensor where
  "example_k = \<lparr>dtype = Float16, device = CUDA 0,
                 data = \<lparr>shape = [1, 1, 1, 2], elems = [3, 5]\<rparr>\<rparr>"

definition example_func :: "unit \<Rightarrow> error + ndtensor \<times> ndtensor" where
  "example_func a = Inr (example_q, example_k)"

definition example_calibrate :: "unit ActQuantizer \<Rightarrow> ndtensor \<Rightarrow> unit" where
  "example_calibrate kq x = ()"

definition example_quantize :: "unit ActQuantizer \<Rightarrow> ndtensor \<Rightarrow> ndtensor" where
  "example_quantize kq x = x"











section \<open>Classification\<close>

text \<open>
  C10. \<open>model_type_extractor\<close> and \<open>get_model_type\<close> agree on every model object: they
  return the same class for a model of a supported family, and one raises ValueError
  (UnsupportedModel) exactly when the other does.
\<close>

theorem model_type_extractor_eq_get_model_type:
  "model_type_extractor cls = get_model_type cls"
  by (simp add: model_type_extractor_def get_model_type_def)

section \<open>The layer-io path\<close>

lemma digit_char_neq_slash: "d < 10 \<Longrightarrow> digit_char d \<noteq> CHR ''/''"
proof
  assume d: "d < 10" and "digit_char d = CHR ''/''"
  then have "of_char (char_of (48 + d) :: char) = (of_char (CHR ''/'') :: nat)"
    by (simp add: digit_char_def)
  then show False using d by simp
qed

lemma digit_char_0: "digit_char 0 = CHR ''0''"
  by code_simp

lemma str_nat_lt10: "n < 10 \<Longrightarrow> str_nat n = [digit_char n]"
  by simp

lemma str_nat_lt100:
  "10 \<le> n \<Longrightarrow> n < 100 \<Longrightarrow> str_nat n = [digit_char (n div 10), digit_char (n mod 10)]"
  by (subst str_nat.simps) (simp add: str_nat_lt10)

lemma str_nat_lt1000:
  "100 \<le> n \<Longrightarrow> n < 1000 \<Longrightarrow>
   str_nat n = [digit_char (n div 100), digit_char (n div 10 mod 10), digit_char (n mod 10)]"
  by (subst str_nat.simps) (simp add: str_nat_lt100 div_mult2_eq[symmetric] del: str_nat.simps)

lemma format_03d_digits:
  assumes "0 \<le> i" and "i < 1000"
  shows "format_03d i =
     [digit_char (nat i div 100), digit_char (nat i div 10 mod 10), digit_char (nat i mod 10)]"
proof -
  consider "nat i < 10" | "10 \<le> nat i" "nat i < 100" | "100 \<le> nat i" "nat i < 1000"
    using assms by linarith
  then show ?thesis
  proof cases
    case 1
    then show ?thesis using assms
      by (simp add: format_03d_def str_nat_lt10 numeral_2_eq_2 digit_char_0 del: str_nat.simps)
  next
    case 2
    then show ?thesis using assms
      by (simp add: format_03d_def str_nat_lt100 digit_char_0 del: str_nat.simps)
  next
    case 3
    then show ?thesis using assms
      by (simp add: format_03d_def str_nat_lt1000 del: str_nat.simps)
  qed
qed

text \<open>
  C9, as stated: the path is exactly \<^verbatim>\<open><save_path>/layer_io/<index, 3 digits>\<close>. The
  code appends the extension \<^verbatim>\<open>.pt\<close> to the index: for the save path \<^verbatim>\<open>out\<close> and layer 7
  it returns \<^verbatim>\<open>out/layer_io/007.pt\<close>, not \<^verbatim>\<open>out/layer_io/007\<close>.
\<close>

theorem get_layer_io_save_path_counterexample:
  "get_layer_io_save_path \<lparr>save_path = ''out'', layer_idx = 7\<rparr> = ''out/layer_io/007.pt'' \<and>
   get_layer_io_save_path \<lparr>save_path = ''out'', layer_idx = 7\<rparr> \<noteq> ''out/layer_io/007''"
  by code_simp

text \<open>
  C9, amended: for a save path that is not empty and does not end with a slash, and a
  layer index from 0 to 999, \<open>get_layer_io_save_path\<close> returns exactly
  \<^verbatim>\<open><save_path>/layer_io/<index as three decimal digits>.pt\<close>.
\<close>

theorem get_layer_io_save_path_pt:
  assumes "save_path a \<noteq> []" and "last (save_path a) \<noteq> CHR ''/''"
    and "0 \<le> layer_idx a" and "layer_idx a < 1000"
  shows "get_layer_io_save_path a =
     save_path a @ ''/layer_io/'' @
       [digit_char (nat (layer_idx a) div 100), digit_char (nat (layer_idx a) div 10 mod 10),
        digit_char (nat (layer_idx a) mod 10)] @ ''.pt''"
  using assms by (simp add: get_layer_io_save_path_def format_03d_digits digit_char_neq_slash)

theorem get_layer_io_save_path_pt_witness:
  "get_layer_io_save_path \<lparr>save_path = ''run/a'', layer_idx = 31\<rparr> = ''run/a/layer_io/031.pt''"
proof -
  have "get_layer_io_save_path \<lparr>save_path = ''run/a'', layer_idx = 31\<rparr> =
     ''run/a'' @ ''/layer_io/'' @
       [digit_char (nat 31 div 100), digit_char (nat 31 div 10 mod 10), digit_char (nat 31 mod 10)] @ ''.pt''"
    using get_layer_io_save_path_pt [of "\<lparr>save_path = ''run/a'', layer_idx = 31\<rparr>"] by simp
  also have "\<dots> = ''run/a/layer_io/031.pt''"
    by code_simp
  finally show ?thesis .
qed

section \<open>Online rotation and the installation guards\<close>

lemma setattr_hasattr: "setattr m name v = Inr m' \<Longrightarrow> hasattr m' name"
  by (auto simp: setattr_def hasattr_def Let_def
      split: pyobj.splits if_splits option.splits slot.splits)

lemma setattr_other:
  "setattr m name v = Inr m' \<Longrightarrow> name' \<noteq> name \<Longrightarrow> attrs m' name' = attrs m name'"
  by (auto simp: setattr_def hasattr_def Let_def
      split: pyobj.splits if_splits option.splits slot.splits)

lemma setattr_hooks: "setattr m name v = Inr m' \<Longrightarrow> forward_pre_hooks m' = forward_pre_hooks m"
  by (auto simp: setattr_def hasattr_def Let_def
      split: pyobj.splits if_splits option.splits slot.splits)

lemma register_online_rotation_buffer:
  assumes "register_online_rotation m Q = Inr m'"
  shows "\<exists>w wd. getattr m ''weight'' = Inr w \<and> tensor_data w = Inr wd \<and>
           attrs m' ''Q'' = Some (InBuffers True, Tensor (to (T Q) wd)) \<and>
           forward_pre_hooks m' = forward_pre_hooks m @ [Online_rotate]"
proof -
  from assms have nh: "\<not> hasattr m ''Q''"
    by (auto simp: register_online_rotation_def split: if_splits)
  then have nQ: "attrs m ''Q'' = None"
    unfolding hasattr_def by blast
  from assms nh obtain w where w: "getattr m ''weight'' = Inr w"
    by (auto simp: register_online_rotation_def split: sum.splits)
  from assms nh w obtain wd where wd: "tensor_data w = Inr wd"
    by (auto simp: register_online_rotation_def split: sum.splits)
  define m1 where "m1 = m\<lparr>attrs := (attrs m)(''Q'' \<mapsto> (InBuffers True, Tensor (to (T Q) wd)))\<rparr>"
  have rb: "register_buffer m ''Q'' (to (T Q) wd) = Inr m1"
    using nQ by (simp add: register_buffer_def m1_def)
  define m2 where "m2 = m1\<lparr>forward_pre_hooks := forward_pre_hooks m1 @ [Online_rotate]\<rparr>"
  have sa: "setattr m2 ''rotate_handle'' (Handle (length (forward_pre_hooks m1))) = Inr m'"
    using assms nh w wd rb
    by (simp add: register_online_rotation_def register_forward_pre_hook_def m2_def)
  have "attrs m' ''Q'' = attrs m2 ''Q''"
    using setattr_other[OF sa, of "''Q''"] by simp
  moreover have "forward_pre_hooks m' = forward_pre_hooks m2"
    using setattr_hooks[OF sa] .
  ultimately show ?thesis
    using w wd by (simp add: m2_def m1_def)
qed




lemma register_example_module:
  "register_online_rotation example_module example_Q = Inr example_rotated_module"
  by (simp add: register_online_rotation_def example_module_def example_Q_def
      example_rotated_module_def hasattr_def getattr_def register_buffer_def
      register_forward_pre_hook_def setattr_def to_def T_def)

text \<open>
  C8. When \<open>register_online_rotation\<close> has succeeded on a module, a second call on that
  module fails with AssertionError (AlreadyConfigured), whatever the matrix; when
  \<open>add_qk_rotation_wrapper_after_function_call_in_forward\<close> has succeeded on a module for a
  function name, a second call for the same function name fails with AssertionError,
  whatever the monkeypatch utility and the configuration.
\<close>

theorem second_installation_fails:
  "(register_online_rotation m Q = Inr m1 \<longrightarrow>
      register_online_rotation m1 Q' = Inl AssertionError) \<and>
   (add_qk_rotation_wrapper_after_function_call_in_forward add_wrapper m function_name cfg = Inr m2 \<longrightarrow>
      add_qk_rotation_wrapper_after_function_call_in_forward add_wrapper' m2 function_name cfg' =
        Inl AssertionError)"
proof (intro conjI impI)
  assume "register_online_rotation m Q = Inr m1"
  from register_online_rotation_buffer[OF this] have "hasattr m1 ''Q''"
    by (auto simp: hasattr_def)
  then show "register_online_rotation m1 Q' = Inl AssertionError"
    by (simp add: register_online_rotation_def)
next
  assume "add_qk_rotation_wrapper_after_function_call_in_forward add_wrapper m function_name cfg = Inr m2"
  then have "hasattr m2 (function_name @ ''_qk_rotation_wrapper'')"
    by (auto simp: add_qk_rotation_wrapper_after_function_call_in_forward_def Let_def
        dest: setattr_hasattr split: if_splits sum.splits prod.splits)
  then show "add_qk_rotation_wrapper_after_function_call_in_forward add_wrapper' m2 function_name cfg' =
      Inl AssertionError"
    by (simp add: add_qk_rotation_wrapper_after_function_call_in_forward_def)
qed

theorem second_installation_fails_witness:
  "register_online_rotation example_module example_Q = Inr example_rotated_module \<and>
   register_online_rotation example_rotated_module example_Q = Inl AssertionError \<and>
   add_qk_rotation_wrapper_after_function_call_in_forward example_add_wrapper example_module
     ''apply_rotary_pos_emb'' () =
     Inr (example_module\<lparr>attrs := (attrs example_module)
            (''apply_rotary_pos_emb_qk_rotation_wrapper'' \<mapsto> (InModules, Submodule 1))\<rparr>) \<and>
   add_qk_rotation_wrapper_after_function_call_in_forward example_add_wrapper
     (example_module\<lparr>attrs := (attrs example_module)
            (''apply_rotary_pos_emb_qk_rotation_wrapper'' \<mapsto> (InModules, Submodule 1))\<rparr>)
     ''apply_rotary_pos_emb'' () = Inl AssertionError"
proof -
  have a: "register_online_rotation example_module example_Q = Inr example_rotated_module"
    by (rule register_example_module)
  have b: "add_qk_rotation_wrapper_after_function_call_in_forward example_add_wrapper example_module
     ''apply_rotary_pos_emb'' () =
     Inr (example_module\<lparr>attrs := (attrs example_module)
            (''apply_rotary_pos_emb_qk_rotation_wrapper'' \<mapsto> (InModules, Submodule 1))\<rparr>)"
    by (simp add: add_qk_rotation_wrapper_after_function_call_in_forward_def example_add_wrapper_def
        example_module_def hasattr_def setattr_def)
  show ?thesis
    using second_installation_fails [of example_module example_Q example_rotated_module example_Q
        example_add_wrapper "''apply_rotary_pos_emb''" "()"
        "example_module\<lparr>attrs := (attrs example_module)
            (''apply_rotary_pos_emb_qk_rotation_wrapper'' \<mapsto> (InModules, Submodule 1))\<rparr>"
        example_add_wrapper "()"] a b
    by simp
qed




section \<open>Layer-norm fusion\<close>












section \<open>The query/key wrapper\<close>

lemma quantize_key_calls:
  "quantize_key calibrate quantize w q k b h s d = (r, kq) \<Longrightarrow>
   \<exists>cs. calls kq = calls (k_quantizer w) @ cs"
  by (auto simp: quantize_key_def find_params_def quantizer_call_def Let_def
      split: if_splits sum.splits prod.splits)

text \<open>
  C4. In a call of \<open>forward\<close> with \<open>k_bits = 16\<close> the quantizer receives no \<open>find_params\<close>
  and no quantizing call (at most the final \<open>free\<close>), whether the call returns or raises;
  and when it returns, the key is the key that \<open>func\<close> returned, or, when the rotation is
  not disabled, the Hadamard rotation of that key cast to the dtype of the query.
\<close>

theorem forward_16_bits_no_quantization:
  assumes "k_bits w = 16"
    and "forward hadamard_transform calibrate quantize func w a = (res, kq)"
  shows "(calls kq = calls (k_quantizer w) \<or> calls kq = calls (k_quantizer w) @ [Free]) \<and>
         (\<forall>q k. res = Inr (q, k) \<longrightarrow>
            (\<exists>q0 k0. func a = Inr (q0, k0) \<and>
               (if disable_qk_rotation w then k = k0
                else rotate hadamard_transform k0 (dtype q0) = Inr k)))"
  using assms
  by (auto simp: forward_def free_def split: sum.splits prod.splits if_splits list.splits)

theorem forward_16_bits_no_quantization_witness:
  "forward None example_calibrate example_quantize example_func (example_wrapper 16 (- 1)) () =
     (Inr (example_q, example_k), free (k_quantizer (example_wrapper 16 (- 1)))) \<and>
   calls (free (k_quantizer (example_wrapper 16 (- 1)))) = [Free]"
proof -
  have b: "k_bits (example_wrapper 16 (- 1)) = 16"
    by (simp add: example_wrapper_def)
  have f: "forward None example_calibrate example_quantize example_func (example_wrapper 16 (- 1)) () =
     (Inr (example_q, example_k), free (k_quantizer (example_wrapper 16 (- 1))))"
    by (simp add: forward_def example_func_def example_wrapper_def example_q_def example_k_def)
  have c: "calls (k_quantizer (example_wrapper 16 (- 1))) = []"
    by (simp add: example_wrapper_def)
  from forward_16_bits_no_quantization [OF b f] c
  have "calls (free (k_quantizer (example_wrapper 16 (- 1)))) = [] \<or>
        calls (free (k_quantizer (example_wrapper 16 (- 1)))) = [Free]"
    by simp
  then have "calls (free (k_quantizer (example_wrapper 16 (- 1)))) = [Free]"
    by (simp add: free_def)
  with f show ?thesis by simp
qed

lemma QKRotationWrapper_init_groupsize:
  assumes "QKRotationWrapper_init is_pow2 new_quantizer cfg kwargs = Inr w"
  shows "groupsize (k_quantizer w) = - 1 \<and> (k_groupsize w = - 1 \<or> k_groupsize w = head_dim w) \<and>
         kw_k_groupsize kwargs = Some (k_groupsize w)"
  using assms
  by (auto simp: QKRotationWrapper_init_def configure_def Let_def
      split: if_splits option.splits)

lemma transpose_1_2_shape:
  "transpose_1_2 t = Inr t' \<Longrightarrow> shape (data t) = [a, b, c, d] \<Longrightarrow> shape (data t') = [a, c, b, d]"
  by (auto simp: transpose_1_2_def Let_def split: list.splits)

lemma quantize_key_shape:
  assumes "quantize_key calibrate quantize w q k b h s d = (Inr k', kq)"
  shows "shape (data k') = [b, h, s, d]"
proof (cases "k_groupsize w = - 1")
  case True
  with assms obtain y y1 y2 where r: "reshape y [b, s, h, d] = Inr y1"
    and t: "transpose_1_2 y1 = Inr y2" and k': "k' = to y2 q"
    by (auto simp: quantize_key_def Let_def split: sum.splits prod.splits)
  from r have "shape (data y1) = [b, s, h, d]"
    by (auto simp: reshape_def split: if_splits)
  from transpose_1_2_shape[OF t this] k' show ?thesis
    by (simp add: to_def)
next
  case False
  with assms obtain y y1 where r: "reshape y [b, h, s, d] = Inr y1" and k': "k' = to y1 q"
    by (auto simp: quantize_key_def Let_def split: sum.splits prod.splits)
  from r have "shape (data y1) = [b, h, s, d]"
    by (auto simp: reshape_def split: if_splits)
  with k' show ?thesis
    by (simp add: to_def)
qed

text \<open>
  C5. The quantizer is configured with group size \<open>-1\<close> whatever the caller's group size,
  and a path that returns, returns a key of shape \<open>(bsz, num_heads, seq_len, head_dim)\<close>
  (the two lemmas above). The token-wise path does not always return: it reshapes the key
  to rows of \<open>hidden_size\<close> entries, and a key with fewer heads than the query (grouped-query
  attention) has \<open>bsz \<cdot> seq_len\<close> rows of \<open>num_heads \<cdot> head_dim\<close> entries instead. For four
  query heads of width 2 and a key of one head for one token, the reshape to rows of 8
  entries raises RuntimeError, while the head-wise path returns the key in its shape.
\<close>

theorem token_wise_key_of_fewer_heads:
  "QKRotationWrapper_init example_is_pow2 example_quantizer example_config (example_kwargs 4 (- 1)) =
     Inr (example_wrapper 4 (- 1)) \<and>
   groupsize (k_quantizer (example_wrapper 4 (- 1))) = - 1 \<and>
   fst (forward None example_calibrate example_quantize example_func (example_wrapper 4 (- 1)) ()) =
     Inl RuntimeError \<and>
   QKRotationWrapper_init example_is_pow2 example_quantizer example_config (example_kwargs 4 2) =
     Inr (example_wrapper 4 2) \<and>
   groupsize (k_quantizer (example_wrapper 4 2)) = - 1 \<and>
   fst (forward None example_calibrate example_quantize example_func (example_wrapper 4 2) ()) =
     Inr (example_q, example_k)"
proof (intro conjI)
  show "QKRotationWrapper_init example_is_pow2 example_quantizer example_config (example_kwargs 4 (- 1)) =
     Inr (example_wrapper 4 (- 1))"
    by (simp add: QKRotationWrapper_init_def example_is_pow2_def example_quantizer_def
        example_config_def example_kwargs_def example_wrapper_def configure_def)
  show "QKRotationWrapper_init example_is_pow2 example_quantizer example_config (example_kwargs 4 2) =
     Inr (example_wrapper 4 2)"
    by (simp add: QKRotationWrapper_init_def example_is_pow2_def example_quantizer_def
        example_config_def example_kwargs_def example_wrapper_def configure_def)
  show "groupsize (k_quantizer (example_wrapper 4 (- 1))) = - 1"
    by (simp add: example_wrapper_def)
  show "groupsize (k_quantizer (example_wrapper 4 2)) = - 1"
    by (simp add: example_wrapper_def)
  show "fst (forward None example_calibrate example_quantize example_func (example_wrapper 4 (- 1)) ()) =
     Inl RuntimeError"
    by (simp add: forward_def quantize_key_def example_func_def example_wrapper_def example_q_def
        example_k_def example_config_def transpose_1_2_def reshape_rows_def numel_def)
  show "fst (forward None example_calibrate example_quantize example_func (example_wrapper 4 2) ()) =
     Inr (example_q, example_k)"
    by (simp add: forward_def quantize_key_def example_func_def example_wrapper_def example_q_def
        example_k_def example_config_def reshape_rows_def reshape_def numel_def find_params_def
        quantizer_call_def example_quantize_def to_def)
qed

section \<open>replace\_modules\<close>

lemma reach_Cons_0:
  "reach t ((name, m) # rest) (0 # p) =
     (if p = [] then Some (name, m)
      else if isinstance (mro_of m) t then None else reach t (children m) p)"
  by simp


lemma child_at_Cons_0:
  "child_at ((name, m) # rest) (0 # p) =
     (if p = [] then Some (name, m) else child_at (children m) p)"
  by simp












lemma call_at_Cons_0: "call_at int_of rl ((name, m) # rest) [0] = (m, factory_arg int_of rl name)"
  by (simp add: call_at_def)











section \<open>capture\_layer\_io\<close>












end
